theory Spec2Isabelle
  imports Main "HOL-Library.Word" "HOL-Library.AList"
begin

section \<open>Go strings and the library functions the engine calls\<close>

text \<open>
  A Go \<open>string\<close> is a sequence of bytes: it is modelled as an Isabelle \<open>string\<close>, whose
  characters are bytes, so \<open>length\<close> is Go's \<open>len\<close>. A rune is a code point, a natural
  number. An \<open>error\<close> is its message; a function returning \<open>(T, error)\<close> returns
  \<open>error + T\<close>, one returning only \<open>error\<close> returns \<open>error option\<close> (\<open>None\<close> is \<open>nil\<close>).
\<close>

type_synonym rune = nat
type_synonym error = string

abbreviation (input) ord :: "char \<Rightarrow> nat" where
  "ord c \<equiv> of_char c"

text \<open>
  Ranging over a string decodes UTF-8: a byte below \<open>0x80\<close> is a rune of width 1, a
  well-formed sequence of 2 to 4 bytes is one rune, and any other byte is the rune
  \<open>U+FFFD\<close> of width 1 (package \<open>unicode/utf8\<close>).
\<close>

definition RuneError :: rune where
  "RuneError = 0xFFFD"

definition cont :: "nat \<Rightarrow> bool" where
  "cont b \<longleftrightarrow> 0x80 \<le> b \<and> b \<le> 0xBF"

fun utf8_DecodeRune :: "nat list \<Rightarrow> rune \<times> nat" where
  "utf8_DecodeRune [] = (RuneError, 0)"
| "utf8_DecodeRune (b0 # rest) =
     (if b0 < 0x80 then (b0, 1)
      else if 0xC2 \<le> b0 \<and> b0 \<le> 0xDF then
        (case rest of
           b1 # _ \<Rightarrow>
             if cont b1 then ((b0 mod 32) * 64 + b1 mod 64, 2) else (RuneError, 1)
         | _ \<Rightarrow> (RuneError, 1))
      else if 0xE0 \<le> b0 \<and> b0 \<le> 0xEF then
        (case rest of
           b1 # b2 # _ \<Rightarrow>
             if (if b0 = 0xE0 then 0xA0 else 0x80) \<le> b1
                \<and> b1 \<le> (if b0 = 0xED then 0x9F else 0xBF) \<and> cont b2
             then (((b0 mod 16) * 64 + b1 mod 64) * 64 + b2 mod 64, 3)
             else (RuneError, 1)
         | _ \<Rightarrow> (RuneError, 1))
      else if 0xF0 \<le> b0 \<and> b0 \<le> 0xF4 then
        (case rest of
           b1 # b2 # b3 # _ \<Rightarrow>
             if (if b0 = 0xF0 then 0x90 else 0x80) \<le> b1
                \<and> b1 \<le> (if b0 = 0xF4 then 0x8F else 0xBF) \<and> cont b2 \<and> cont b3
             then ((((b0 mod 8) * 64 + b1 mod 64) * 64 + b2 mod 64) * 64 + b3 mod 64, 4)
             else (RuneError, 1)
         | _ \<Rightarrow> (RuneError, 1))
      else (RuneError, 1))"

declare utf8_DecodeRune.simps [simp del]

function runes :: "nat list \<Rightarrow> rune list" where
  "runes [] = []"
| "runes (b0 # rest) =
     fst (utf8_DecodeRune (b0 # rest))
       # runes (drop (snd (utf8_DecodeRune (b0 # rest)) - 1) rest)"
  by pat_completeness auto
termination
  by (relation "measure length") auto

text \<open>\<open>utf8.EncodeRune\<close>: a surrogate or a value beyond \<open>U+10FFFF\<close> is written as \<open>U+FFFD\<close>.\<close>

definition utf8_EncodeRune :: "rune \<Rightarrow> nat list" where
  "utf8_EncodeRune r =
     (if r < 0x80 then [r]
      else if r < 0x800 then [0xC0 + r div 64, 0x80 + r mod 64]
      else if 0x10FFFF < r \<or> (0xD800 \<le> r \<and> r \<le> 0xDFFF) then [0xEF, 0xBF, 0xBD]
      else if r < 0x10000 then
        [0xE0 + r div 4096, 0x80 + (r div 64) mod 64, 0x80 + r mod 64]
      else
        [0xF0 + r div 262144, 0x80 + (r div 4096) mod 64, 0x80 + (r div 64) mod 64,
         0x80 + r mod 64])"

text \<open>
  \<open>strings.Map\<close>: the mapping is applied to every decoded rune and the results are
  encoded again. (A mapping returning a negative rune drops the character; none of the
  mappings used here does, so runes are naturals.)
\<close>

definition strings_Map :: "(rune \<Rightarrow> rune) \<Rightarrow> string \<Rightarrow> string" where
  "strings_Map mapping s =
     map char_of (concat (map (\<lambda>r. utf8_EncodeRune (mapping r)) (runes (map ord s))))"

text \<open>
  \<open>strings.ToLower\<close>: a string of ASCII bytes is lower-cased byte by byte; any other
  string is mapped rune by rune with \<open>unicode.ToLower\<close>. The Unicode case table for the
  runes from \<open>0x80\<close> on is a parameter \<open>U\<close> of the model (it is data of the Go
  distribution); every theorem below holds for every such table.
\<close>

definition unicode_ToLower :: "(rune \<Rightarrow> rune) \<Rightarrow> rune \<Rightarrow> rune" where
  "unicode_ToLower U r =
     (if r < 0x80 then (if ord CHR ''A'' \<le> r \<and> r \<le> ord CHR ''Z'' then r + 32 else r)
      else U r)"

definition ascii_lower :: "char \<Rightarrow> char" where
  "ascii_lower c =
     (if ord CHR ''A'' \<le> ord c \<and> ord c \<le> ord CHR ''Z'' then char_of (ord c + 32) else c)"

definition strings_ToLower :: "(rune \<Rightarrow> rune) \<Rightarrow> string \<Rightarrow> string" where
  "strings_ToLower U s =
     (if list_all (\<lambda>c. ord c < 0x80) s then map ascii_lower s
      else strings_Map (unicode_ToLower U) s)"

fun strings_HasPrefix :: "string \<Rightarrow> string \<Rightarrow> bool" where
  "strings_HasPrefix s [] = True"
| "strings_HasPrefix [] (p # ps) = False"
| "strings_HasPrefix (c # cs) (p # ps) = (c = p \<and> strings_HasPrefix cs ps)"

fun strings_Contains :: "string \<Rightarrow> string \<Rightarrow> bool" where
  "strings_Contains [] substr = (substr = [])"
| "strings_Contains (c # cs) substr =
     (strings_HasPrefix (c # cs) substr \<or> strings_Contains cs substr)"

definition strings_HasSuffix :: "string \<Rightarrow> string \<Rightarrow> bool" where
  "strings_HasSuffix s suffix = strings_HasPrefix (rev s) (rev suffix)"

fun strings_Join :: "string list \<Rightarrow> string \<Rightarrow> string" where
  "strings_Join [] sep = []"
| "strings_Join [x] sep = x"
| "strings_Join (x # y # ys) sep = x @ sep @ strings_Join (y # ys) sep"

text \<open>The verb \<open>%d\<close> of \<open>fmt.Sprintf\<close> on a non-negative integer.\<close>

fun itoa :: "nat \<Rightarrow> string" where
  "itoa n =
     (if n < 10 then [char_of (ord CHR ''0'' + n)]
      else itoa (n div 10) @ [char_of (ord CHR ''0'' + n mod 10)])"

declare itoa.simps [simp del]

section \<open>Identifier sanitization\<close>

text \<open>The function literal passed to \<open>strings.Map\<close> by both sanitizers.\<close>

definition keep_or_underscore :: "rune \<Rightarrow> rune" where
  "keep_or_underscore r =
     (if (ord CHR ''a'' \<le> r \<and> r \<le> ord CHR ''z'') \<or> (ord CHR ''0'' \<le> r \<and> r \<le> ord CHR ''9'')
         \<or> r = ord CHR ''_''
      then r else ord CHR ''_'')"

definition SanitizeTableName :: "(rune \<Rightarrow> rune) \<Rightarrow> string \<Rightarrow> string" where
  "SanitizeTableName U tableName =
     (let tableName1 = strings_ToLower U tableName;
          tableName2 = strings_Map keep_or_underscore tableName1;
          tableName3 =
            (if length tableName2 > 0
                \<and> ((ord CHR ''0'' \<le> ord (hd tableName2) \<and> ord (hd tableName2) \<le> ord CHR ''9'')
                    \<or> hd tableName2 = CHR ''_'')
             then ''t_'' @ tableName2 else tableName2)
      in if length tableName3 > 63 then take 63 tableName3 else tableName3)"

definition SanitizeColumnName :: "(rune \<Rightarrow> rune) \<Rightarrow> string \<Rightarrow> string" where
  "SanitizeColumnName U colName =
     (let colName1 = strings_ToLower U colName;
          colName2 = strings_Map keep_or_underscore colName1;
          colName3 =
            (if length colName2 > 0
                \<and> ((ord CHR ''0'' \<le> ord (hd colName2) \<and> ord (hd colName2) \<le> ord CHR ''9'')
                    \<or> hd colName2 = CHR ''_'')
             then ''c_'' @ colName2 else colName2)
      in if length colName3 > 63 then take 63 colName3 else colName3)"

text \<open>The regular expression \<open>^[a-z_][a-z0-9_]{0,62}$\<close>, as a predicate.\<close>

definition lower_letter :: "char \<Rightarrow> bool" where
  "lower_letter c \<longleftrightarrow> ord CHR ''a'' \<le> ord c \<and> ord c \<le> ord CHR ''z''"

definition ident_char :: "char \<Rightarrow> bool" where
  "ident_char c \<longleftrightarrow>
     lower_letter c \<or> (ord CHR ''0'' \<le> ord c \<and> ord c \<le> ord CHR ''9'') \<or> c = CHR ''_''"

fun matches_identifier :: "string \<Rightarrow> bool" where
  "matches_identifier [] = False"
| "matches_identifier (c # cs) =
     ((lower_letter c \<or> c = CHR ''_'') \<and> list_all ident_char cs \<and> length cs \<le> 62)"

section \<open>Values, records and the outside world\<close>

text \<open>
  A field value has type \<open>interface{}\<close>. The engine only asks for its dynamic type:
  \<open>nil\<close>, one of the ten integer types, \<open>float32\<close>/\<open>float64\<close> (kept as the bits of the
  \<open>float64\<close>), \<open>string\<close>, or anything else (\<open>bool\<close>, \<open>[]byte\<close>, \<open>time.Time\<close>, nested JSON).
\<close>

datatype val = VNil | VInt int | VFloat "64 word" | VString string | VBool bool | VOther

text \<open>
  \<open>DataRecord\<close> is \<open>map[string]interface{}\<close>: an association list with one entry per key.
  \<open>m[k] = v\<close> is \<open>AList.update k v m\<close>, and \<open>m[k]\<close> of an absent key is \<open>nil\<close>. Go leaves
  the order of \<open>range\<close> over a map open; the model ranges in the order in which the keys
  were first assigned, which is one of the orders Go may take.
\<close>

type_synonym DataRecord = "(string \<times> val) list"

definition index :: "DataRecord \<Rightarrow> string \<Rightarrow> val" where
  "index m k = (case map_of m k of None \<Rightarrow> VNil | Some v \<Rightarrow> v)"

datatype FileFormat = Unknown | CSV | JSON | XLSX | XLS | DUMP | TAR | TARGZ | SQL

fun FileFormat_iota :: "FileFormat \<Rightarrow> nat" where
  "FileFormat_iota Unknown = 0"
| "FileFormat_iota CSV = 1"
| "FileFormat_iota JSON = 2"
| "FileFormat_iota XLSX = 3"
| "FileFormat_iota XLS = 4"
| "FileFormat_iota DUMP = 5"
| "FileFormat_iota TAR = 6"
| "FileFormat_iota TARGZ = 7"
| "FileFormat_iota SQL = 8"

text \<open>
  What a run leaves behind: the statements sent to the warehouse through \<open>e.db\<close>, in
  order and whether or not they succeeded; the objects the object store accepted, as
  (bucket, name, body); and the lines written with \<open>log.Printf\<close>.
\<close>

datatype db_call = Exec string "val list" | Query string "val list"

record world =
  db_calls :: "db_call list"
  objects :: "(string \<times> string \<times> string) list"
  log_lines :: "string list"

text \<open>
  Everything the engine reaches outside this repository is a field of \<open>env\<close>: the file
  system, the parsers and the Unicode data of the Go distribution, and the two
  services, whose answer to a call may depend on everything that happened before it.
  The two spreadsheet extractors are thin wrappers of spreadsheet libraries; their
  result is taken from \<open>env\<close> as a whole.
\<close>

record env =
  unicode_table :: "rune \<Rightarrow> rune"
  strings_TrimSpace :: "string \<Rightarrow> string"
  os_Open :: "string \<Rightarrow> error + string"
  csv_ReadAll :: "string \<Rightarrow> error + string list list"
  json_Valid :: "string \<Rightarrow> bool"
  json_Unmarshal_slice :: "string \<Rightarrow> error + DataRecord list"
  json_Unmarshal_object :: "string \<Rightarrow> error + DataRecord"
  json_Marshal :: "DataRecord list \<Rightarrow> error + string"
  ExtractFromXLSX :: "string \<Rightarrow> error + DataRecord list"
  ExtractFromXLS :: "string \<Rightarrow> error + DataRecord list"
  minioBucket :: string
  minio_PutObject :: "world \<Rightarrow> string \<Rightarrow> string \<Rightarrow> string \<Rightarrow> error option"
  db_Exec :: "world \<Rightarrow> string \<Rightarrow> val list \<Rightarrow> error option"
  db_Query :: "world \<Rightarrow> string \<Rightarrow> val list \<Rightarrow> error + (error + string \<times> string) list"

definition log_Printf :: "world \<Rightarrow> string \<Rightarrow> world" where
  "log_Printf w line = w\<lparr>log_lines := log_lines w @ [line]\<rparr>"

definition db_exec :: "env \<Rightarrow> world \<Rightarrow> string \<Rightarrow> val list \<Rightarrow> world \<times> error option" where
  "db_exec env w query args =
     (w\<lparr>db_calls := db_calls w @ [Exec query args]\<rparr>, db_Exec env w query args)"

definition db_query ::
  "env \<Rightarrow> world \<Rightarrow> string \<Rightarrow> val list \<Rightarrow> world \<times> (error + (error + string \<times> string) list)" where
  "db_query env w query args =
     (w\<lparr>db_calls := db_calls w @ [Query query args]\<rparr>, db_Query env w query args)"

section \<open>Format detection\<close>

text \<open>\<open>filepath.Ext\<close> and \<open>filepath.Base\<close> with the separator \<open>/\<close>.\<close>

fun ext_scan :: "string \<Rightarrow> string \<Rightarrow> string" where
  "ext_scan [] suffix = []"
| "ext_scan (c # front) suffix =
     (if c = CHR ''/'' then []
      else if c = CHR ''.'' then c # suffix
      else ext_scan front (c # suffix))"

definition filepath_Ext :: "string \<Rightarrow> string" where
  "filepath_Ext path = ext_scan (rev path) []"

definition filepath_Base :: "string \<Rightarrow> string" where
  "filepath_Base path =
     (if path = [] then ''.''
      else
        let stripped = rev (dropWhile (\<lambda>c. c = CHR ''/'') (rev path));
            base = rev (takeWhile (\<lambda>c. c \<noteq> CHR ''/'') (rev stripped))
        in if base = [] then ''/'' else base)"

definition isJSON :: "env \<Rightarrow> string \<Rightarrow> bool" where
  "isJSON env data = json_Valid env data"

definition isXLSX :: "string \<Rightarrow> bool" where
  "isXLSX data =
     (if length data < 4 then False else data ! 0 = CHR 0x50 \<and> data ! 1 = CHR 0x4B)"

definition isXLS :: "string \<Rightarrow> bool" where
  "isXLS data =
     (if length data < 8 then False
      else data ! 0 = CHR 0xD0 \<and> data ! 1 = CHR 0xCF \<and> data ! 2 = CHR 0x11 \<and> data ! 3 = CHR 0xE0)"

definition isSQL :: "env \<Rightarrow> string \<Rightarrow> bool" where
  "isSQL env data =
     (let content = strings_ToLower (unicode_table env) (strings_TrimSpace env data)
      in strings_Contains content ''create table'' \<or> strings_Contains content ''insert into''
         \<or> strings_Contains content ''select '' \<or> strings_Contains content ''drop table'')"

definition identifyFormatByContent :: "env \<Rightarrow> string \<Rightarrow> FileFormat" where
  "identifyFormatByContent env filePath =
     (case os_Open env filePath of
        Inl err \<Rightarrow> Unknown
      | Inr content \<Rightarrow>
          let buffer = take 512 content
          in if isJSON env buffer then JSON
             else if isXLSX buffer then XLSX
             else if isXLS buffer then XLS
             else if isSQL env buffer then SQL
             else Unknown)"

definition GetFileFormat :: "env \<Rightarrow> string \<Rightarrow> FileFormat" where
  "GetFileFormat env filePath =
     (let ext = strings_ToLower (unicode_table env) (filepath_Ext filePath)
      in if ext = ''.csv'' then CSV
         else if ext = ''.json'' then JSON
         else if ext = ''.xlsx'' then XLSX
         else if ext = ''.xls'' then XLS
         else if ext = ''.dump'' then DUMP
         else if ext = ''.tar'' then TAR
         else if ext = ''.gz'' then
           (if strings_HasSuffix (strings_ToLower (unicode_table env) filePath) ''.tar.gz''
            then TARGZ else DUMP)
         else if ext = ''.sql'' then SQL
         else identifyFormatByContent env filePath)"

section \<open>Extractors\<close>

text \<open>
  The inner loop of \<open>ExtractFromCSV\<close>: \<open>for j, header := range headers\<close>, assigning
  \<open>record[header] = records[i][j]\<close> while \<open>j < len(records[i])\<close>.
\<close>

fun csv_fill :: "string list \<Rightarrow> nat \<Rightarrow> string list \<Rightarrow> DataRecord \<Rightarrow> DataRecord" where
  "csv_fill [] j row rec = rec"
| "csv_fill (header # headers) j row rec =
     csv_fill headers (Suc j) row
       (if j < length row then AList.update header (VString (row ! j)) rec else rec)"

definition ExtractFromCSV :: "env \<Rightarrow> string \<Rightarrow> error + DataRecord list" where
  "ExtractFromCSV env filePath =
     (case os_Open env filePath of
        Inl err \<Rightarrow> Inl err
      | Inr file \<Rightarrow>
          (case csv_ReadAll env file of
             Inl err \<Rightarrow> Inl err
           | Inr records \<Rightarrow>
               if length records = 0 then Inl ''no data found in CSV file''
               else
                 let headers = records ! 0
                 in Inr (map (\<lambda>row. csv_fill headers 0 row []) (drop 1 records))))"

definition ExtractFromJSON :: "env \<Rightarrow> string \<Rightarrow> error + DataRecord list" where
  "ExtractFromJSON env filePath =
     (case os_Open env filePath of
        Inl err \<Rightarrow> Inl err
      | Inr byteValue \<Rightarrow>
          (case json_Unmarshal_slice env byteValue of
             Inr jsonData \<Rightarrow> Inr jsonData
           | Inl err \<Rightarrow>
               (case json_Unmarshal_object env byteValue of
                  Inr jsonObj \<Rightarrow> Inr [jsonObj]
                | Inl err2 \<Rightarrow> Inl err)))"

definition ExtractFromDump :: "env \<Rightarrow> string \<Rightarrow> error + DataRecord list" where
  "ExtractFromDump env filePath =
     (case os_Open env filePath of
        Inl err \<Rightarrow> Inl err
      | Inr file \<Rightarrow> Inr [])"

definition ExtractFromFile :: "env \<Rightarrow> string \<Rightarrow> error + DataRecord list" where
  "ExtractFromFile env filePath =
     (case GetFileFormat env filePath of
        CSV \<Rightarrow> ExtractFromCSV env filePath
      | JSON \<Rightarrow> ExtractFromJSON env filePath
      | XLSX \<Rightarrow> ExtractFromXLSX env filePath
      | XLS \<Rightarrow> ExtractFromXLS env filePath
      | DUMP \<Rightarrow> ExtractFromDump env filePath
      | SQL \<Rightarrow> ExtractFromDump env filePath
      | _ \<Rightarrow> Inl (''unsupported file format: '' @ filePath))"

text \<open>
  \<open>Transform\<close> rewrites every string field with \<open>fmt.Sprintf("%v", v)\<close>, in place, and
  returns the slice it was given.
\<close>

definition Transform :: "DataRecord list \<Rightarrow> DataRecord list" where
  "Transform data =
     map (map (\<lambda>(key, v). (key, (case v of VString s \<Rightarrow> VString s | _ \<Rightarrow> v)))) data"

section \<open>Raw archive\<close>

definition LoadToMinIO :: "env \<Rightarrow> world \<Rightarrow> DataRecord list \<Rightarrow> string \<Rightarrow> world \<times> error option" where
  "LoadToMinIO env w data fileName =
     (case json_Marshal env data of
        Inl err \<Rightarrow> (w, Some err)
      | Inr jsonData \<Rightarrow>
          let objectName = ''raw/'' @ fileName
          in (case minio_PutObject env w (minioBucket env) objectName jsonData of
                Some err \<Rightarrow> (w, Some err)
              | None \<Rightarrow>
                  (w\<lparr>objects := objects w @ [(minioBucket env, objectName, jsonData)]\<rparr>, None)))"

section \<open>Schema inference and table creation\<close>

record kinds =
  hasInt :: bool
  hasFloat :: bool
  hasString :: bool
  hasDate :: bool

text \<open>One turn of the loop of \<open>InferColumnType\<close>: the type switch on a sampled value.\<close>

fun note_kind :: "(rune \<Rightarrow> rune) \<Rightarrow> kinds \<Rightarrow> val \<Rightarrow> kinds" where
  "note_kind U k VNil = k"
| "note_kind U k (VInt i) = k\<lparr>hasInt := True\<rparr>"
| "note_kind U k (VFloat f) = k\<lparr>hasFloat := True\<rparr>"
| "note_kind U k (VString v) =
     (if strings_Contains (strings_ToLower U v) ''20'' \<and> length v \<ge> 8
      then k\<lparr>hasDate := True\<rparr> else k\<lparr>hasString := True\<rparr>)"
| "note_kind U k other = k\<lparr>hasString := True\<rparr>"

definition InferColumnType :: "(rune \<Rightarrow> rune) \<Rightarrow> val list \<Rightarrow> string" where
  "InferColumnType U vals =
     (let k = foldl (note_kind U)
                \<lparr>hasInt = False, hasFloat = False, hasString = False, hasDate = False\<rparr> vals
      in if hasFloat k then ''NUMERIC''
         else if hasInt k \<and> \<not> hasFloat k \<and> \<not> hasString k then ''INTEGER''
         else if hasDate k \<and> \<not> hasString k then ''DATE''
         else ''TEXT'')"

text \<open>
  The sampling loops of \<open>CreateTableIfNotExists\<close>:
  \<open>columnValues[key] = append(columnValues[key], value)\<close> for every field of every
  sampled record.
\<close>

fun collect_record ::
  "DataRecord \<Rightarrow> (string \<times> val list) list \<Rightarrow> (string \<times> val list) list" where
  "collect_record [] columnValues = columnValues"
| "collect_record ((key, v) # entries) columnValues =
     collect_record entries
       (AList.update key
          ((case map_of columnValues key of None \<Rightarrow> [] | Some vs \<Rightarrow> vs) @ [v]) columnValues)"

fun collect_columns ::
  "DataRecord list \<Rightarrow> (string \<times> val list) list \<Rightarrow> (string \<times> val list) list" where
  "collect_columns [] columnValues = columnValues"
| "collect_columns (rec # recs) columnValues =
     collect_columns recs (collect_record rec columnValues)"

definition CreateTableIfNotExists ::
  "env \<Rightarrow> world \<Rightarrow> string \<Rightarrow> DataRecord list \<Rightarrow> world \<times> error option" where
  "CreateTableIfNotExists env w tableName data =
     (if length data = 0 then (w, None)
      else
        let safeTableName = SanitizeTableName (unicode_table env) tableName;
            sampleSize = (if length data > 100 then 100 else length data);
            columnValues = collect_columns (take sampleSize data) [];
            columnsDef =
              map (\<lambda>(colName, vals).
                     [CHR 0x22] @ SanitizeColumnName (unicode_table env) colName @ [CHR 0x22]
                       @ '' '' @ InferColumnType (unicode_table env) vals)
                columnValues;
            query = ''CREATE TABLE IF NOT EXISTS '' @ safeTableName @ '' (''
                      @ strings_Join columnsDef '', '' @ '', id SERIAL PRIMARY KEY)''
        in (case db_exec env w query [] of
              (w1, Some err) \<Rightarrow>
                (w1, Some (''failed to create table '' @ safeTableName @ '': '' @ err))
            | (w1, None) \<Rightarrow>
                (log_Printf w1 (''Successfully created table: '' @ safeTableName), None)))"

section \<open>Column classifier and view synthesizer\<close>

record ColumnAnalysisResult =
  TableName :: string
  Dimensions :: "(string \<times> string) list"
  Facts :: "string list"
  Relationships :: "string list"

definition catalog_query :: string where
  "catalog_query =
     [CHR 0x0A, CHR 0x09, CHR 0x09] @ ''SELECT column_name, data_type''
     @ [CHR 0x0A, CHR 0x09, CHR 0x09] @ ''FROM information_schema.columns''
     @ [CHR 0x0A, CHR 0x09, CHR 0x09] @ ''WHERE table_name = $1''
     @ [CHR 0x0A, CHR 0x09, CHR 0x09] @ ''ORDER BY ordinal_position''
     @ [CHR 0x0A, CHR 0x09]"

text \<open>The loop over \<open>rows.Next()\<close>: a row that fails to scan ends the analysis.\<close>

fun scan_rows ::
  "(error + string \<times> string) list \<Rightarrow> (string \<times> string) list \<Rightarrow> error + (string \<times> string) list" where
  "scan_rows [] columns = Inr columns"
| "scan_rows (Inl err # rows) columns = Inl err"
| "scan_rows (Inr col # rows) columns = scan_rows rows (columns @ [col])"

text \<open>The classification loop: the dimension keywords are tried first.\<close>

fun classify_columns ::
  "(rune \<Rightarrow> rune) \<Rightarrow> (string \<times> string) list \<Rightarrow> ColumnAnalysisResult \<Rightarrow> ColumnAnalysisResult" where
  "classify_columns U [] result = result"
| "classify_columns U ((colName, colType) # columns) result =
     (let colLower = strings_ToLower U colName
      in classify_columns U columns
           (if strings_Contains colLower ''name'' \<or> strings_Contains colLower ''desc''
               \<or> strings_Contains colLower ''category'' \<or> strings_Contains colLower ''type''
               \<or> strings_Contains colLower ''date''
            then result\<lparr>Dimensions := AList.update colName ''dimension'' (Dimensions result)\<rparr>
            else if strings_Contains colLower ''amount'' \<or> strings_Contains colLower ''price''
                    \<or> strings_Contains colLower ''quantity''
                    \<or> strings_Contains colLower ''count''
                    \<or> strings_Contains colLower ''total''
            then result\<lparr>Facts := Facts result @ [colName]\<rparr>
            else result))"

definition AnalyzeColumnsWithLLM ::
  "env \<Rightarrow> world \<Rightarrow> string \<Rightarrow> world \<times> (error + ColumnAnalysisResult)" where
  "AnalyzeColumnsWithLLM env w tableName =
     (case db_query env w catalog_query [VString tableName] of
        (w1, Inl err) \<Rightarrow> (w1, Inl (''failed to get table structure: '' @ err))
      | (w1, Inr rows) \<Rightarrow>
          (case scan_rows rows [] of
             Inl err \<Rightarrow> (w1, Inl err)
           | Inr columns \<Rightarrow>
               (w1, Inr (classify_columns (unicode_table env) columns
                           \<lparr>TableName = tableName, Dimensions = [], Facts = [],
                            Relationships = []\<rparr>))))"

definition CreateStarSchemaViews :: "env \<Rightarrow> world \<Rightarrow> string \<Rightarrow> world \<times> error option" where
  "CreateStarSchemaViews env w tableName =
     (case AnalyzeColumnsWithLLM env w tableName of
        (w1, Inl err) \<Rightarrow> (w1, Some (''failed to analyze columns with LLM: '' @ err))
      | (w1, Inr analysis) \<Rightarrow>
          let viewName = tableName @ ''_star_view'';
              query = ''SELECT * FROM '' @ tableName;
              createViewQuery = ''CREATE OR REPLACE VIEW '' @ viewName @ '' AS '' @ query
          in (case db_exec env w1 createViewQuery [] of
                (w2, Some err) \<Rightarrow> (w2, Some (''failed to create star schema view: '' @ err))
              | (w2, None) \<Rightarrow>
                  (log_Printf w2
                     (''Successfully created star schema view: '' @ viewName @ '' with ''
                        @ itoa (length (Dimensions analysis)) @ '' dimensions and ''
                        @ itoa (length (Facts analysis)) @ '' facts''),
                   None)))"

section \<open>Loader and pipeline\<close>

text \<open>The insert loop of \<open>LoadToPostgreSQL\<close>: a failed insert is logged and skipped.\<close>

fun insert_records :: "env \<Rightarrow> string \<Rightarrow> string list \<Rightarrow> world \<Rightarrow> DataRecord list \<Rightarrow> world" where
  "insert_records env insertQuery originalColumnNames w [] = w"
| "insert_records env insertQuery originalColumnNames w (rec # recs) =
     (case db_exec env w insertQuery (map (index rec) originalColumnNames) of
        (w1, Some err) \<Rightarrow>
          insert_records env insertQuery originalColumnNames
            (log_Printf w1 (''Error inserting record: '' @ err)) recs
      | (w1, None) \<Rightarrow> insert_records env insertQuery originalColumnNames w1 recs)"

definition LoadToPostgreSQL :: "env \<Rightarrow> world \<Rightarrow> DataRecord list \<Rightarrow> world \<times> error option" where
  "LoadToPostgreSQL env w data =
     (if length data = 0 then (w, None)
      else
        let tableName = ''auto_table_'' @ itoa (length data)
        in (case CreateTableIfNotExists env w tableName data of
              (w1, Some err) \<Rightarrow> (w1, Some (''failed to create table: '' @ err))
            | (w1, None) \<Rightarrow>
                let originalColumnNames = map fst (data ! 0);
                    sanitizedColumnNames =
                      map (SanitizeColumnName (unicode_table env)) originalColumnNames;
                    placeholders =
                      map (\<lambda>i. ''$'' @ itoa (i + 1)) [0 ..< length sanitizedColumnNames];
                    insertQuery = ''INSERT INTO '' @ tableName @ '' (''
                                    @ strings_Join sanitizedColumnNames '', '' @ '') VALUES (''
                                    @ strings_Join placeholders '', '' @ '')'';
                    w2 = insert_records env insertQuery originalColumnNames w1 data;
                    w4 = (case CreateStarSchemaViews env w2 tableName of
                            (w3, Some err) \<Rightarrow>
                              log_Printf w3
                                (''Warning: Failed to create star schema views: '' @ err)
                          | (w3, None) \<Rightarrow> w3)
                in (log_Printf w4
                      (''Successfully inserted '' @ itoa (length data) @ '' records into table ''
                         @ tableName @ '' and created star schema view''),
                    None)))"

text \<open>
  \<open>ProcessETLFromFile\<close>. \<open>Transform\<close> has rewritten the records of \<open>data\<close> in place, so
  the slice handed to \<open>LoadToMinIO\<close> under the name \<open>data\<close> is \<open>transformedData\<close>.
\<close>

definition ProcessETLFromFile :: "env \<Rightarrow> world \<Rightarrow> string \<Rightarrow> world \<times> error option" where
  "ProcessETLFromFile env w filePath =
     (let format = GetFileFormat env filePath;
          w0 = log_Printf w (''Processing file '' @ filePath @ '' with format: ''
                              @ itoa (FileFormat_iota format))
      in (case ExtractFromFile env filePath of
            Inl err \<Rightarrow> (w0, Some (''extract failed: '' @ err))
          | Inr data \<Rightarrow>
              let transformedData = Transform data;
                  fileName = ''raw_'' @ filepath_Base filePath
              in (case LoadToMinIO env w0 transformedData fileName of
                    (w1, Some err) \<Rightarrow> (w1, Some (''load to MinIO failed: '' @ err))
                  | (w1, None) \<Rightarrow>
                      (case LoadToPostgreSQL env w1 transformedData of
                         (w2, Some err) \<Rightarrow> (w2, Some (''load to PostgreSQL failed: '' @ err))
                       | (w2, None) \<Rightarrow>
                           (log_Printf w2 ''ETL process completed successfully'', None)))))"

section \<open>Vocabulary of the properties\<close>

text \<open>
  An identifier that the sanitizers leave alone: at most 63 characters of
  \<open>[a-z0-9_]\<close>, the first one (if there is one) a letter.
\<close>

definition clean_ident :: "string \<Rightarrow> bool" where
  "clean_ident s \<longleftrightarrow>
     list_all ident_char s \<and> length s \<le> 63 \<and> (s = [] \<or> lower_letter (hd s))"

text \<open>The kinds of sampled values that type inference tells apart.\<close>

fun is_integer :: "val \<Rightarrow> bool" where
  "is_integer (VInt i) = True"
| "is_integer v = False"

fun is_float :: "val \<Rightarrow> bool" where
  "is_float (VFloat f) = True"
| "is_float v = False"

fun is_text :: "val \<Rightarrow> bool" where
  "is_text (VString s) = True"
| "is_text v = False"

fun date_like :: "(rune \<Rightarrow> rune) \<Rightarrow> val \<Rightarrow> bool" where
  "date_like U (VString s) = (strings_Contains (strings_ToLower U s) ''20'' \<and> 8 \<le> length s)"
| "date_like U v = False"

text \<open>
  Plain text, for the inference: a string that is not date-like, or a value that is
  neither \<open>nil\<close>, an integer, a floating-point number nor a string.
\<close>

fun plain_text :: "(rune \<Rightarrow> rune) \<Rightarrow> val \<Rightarrow> bool" where
  "plain_text U VNil = False"
| "plain_text U (VInt i) = False"
| "plain_text U (VFloat f) = False"
| "plain_text U (VString s) = (\<not> date_like U (VString s))"
| "plain_text U v = True"

text \<open>
  The priority rule in the words of the specification, where ``text'' is any string
  and ``plain text'' a string that is not date-like. It is compared with
  \<open>InferColumnType\<close> below.
\<close>

definition InferColumnType_as_specified :: "(rune \<Rightarrow> rune) \<Rightarrow> val list \<Rightarrow> string" where
  "InferColumnType_as_specified U vals =
     (if list_ex is_float vals then ''NUMERIC''
      else if list_ex is_integer vals \<and> \<not> list_ex is_float vals \<and> \<not> list_ex is_text vals
      then ''INTEGER''
      else if list_ex (date_like U) vals
              \<and> \<not> list_ex (\<lambda>v. is_text v \<and> \<not> date_like U v) vals
      then ''DATE''
      else ''TEXT'')"

text \<open>The two keyword tests of the column classifier, on a column name.\<close>

definition dimension_keyword :: "(rune \<Rightarrow> rune) \<Rightarrow> string \<Rightarrow> bool" where
  "dimension_keyword U colName =
     list_ex (strings_Contains (strings_ToLower U colName))
       [''name'', ''desc'', ''category'', ''type'', ''date'']"

definition fact_keyword :: "(rune \<Rightarrow> rune) \<Rightarrow> string \<Rightarrow> bool" where
  "fact_keyword U colName =
     list_ex (strings_Contains (strings_ToLower U colName))
       [''amount'', ''price'', ''quantity'', ''count'', ''total'']"

text \<open>A statement sent to the warehouse is about table \<open>t\<close>.\<close>

fun targets_table :: "string \<Rightarrow> db_call \<Rightarrow> bool" where
  "targets_table t (Exec query args) =
     (strings_HasPrefix query (''CREATE TABLE IF NOT EXISTS '' @ t @ '' ('')
      \<or> strings_HasPrefix query (''INSERT INTO '' @ t @ '' ('')
      \<or> query = ''CREATE OR REPLACE VIEW '' @ t @ ''_star_view AS SELECT * FROM '' @ t)"
| "targets_table t (Query query args) = (query = catalog_query \<and> args = [VString t])"

section \<open>A concrete environment\<close>

text \<open>
  What \<open>encoding/csv\<close> reads, with its default settings, from text without quotes and
  carriage returns: empty lines are skipped, fields are split at commas, and every
  record must have as many fields as the first.
\<close>

fun split_at :: "char \<Rightarrow> string \<Rightarrow> string list" where
  "split_at sep [] = [[]]"
| "split_at sep (c # cs) =
     (if c = sep then [] # split_at sep cs
      else (case split_at sep cs of
              [] \<Rightarrow> [[c]]
            | f # fs \<Rightarrow> (c # f) # fs))"

definition plain_csv_ReadAll :: "string \<Rightarrow> error + string list list" where
  "plain_csv_ReadAll text =
     (let lines = filter (\<lambda>line. line \<noteq> []) (split_at (CHR 0x0A) text);
          records = map (split_at CHR '','') lines
      in if list_all (\<lambda>r. length r = length (hd records)) records then Inr records
         else Inl ''wrong number of fields'')"

definition customers_csv :: string where
  "customers_csv =
     ''customer_id,customer_name'' @ [CHR 0x0A] @ ''1,John'' @ [CHR 0x0A] @ ''2,Jane''
     @ [CHR 0x0A]"

definition demo_files :: "string \<Rightarrow> error + string" where
  "demo_files path =
     (if path = ''customers.csv'' then Inr customers_csv
      else if path = ''header_only.csv'' then Inr (''customer_id,customer_name'' @ [CHR 0x0A])
      else if path = ''empty.csv'' then Inr []
      else if path = ''ragged.csv'' then Inr (''a,b,c'' @ [CHR 0x0A] @ ''1'' @ [CHR 0x0A])
      else if path = ''duplicate.csv'' then Inr (''a,a'' @ [CHR 0x0A] @ ''1,2'' @ [CHR 0x0A])
      else Inl (''open '' @ path @ '': no such file or directory''))"

definition customers :: "DataRecord list" where
  "customers =
     [[(''customer_id'', VString ''1''), (''customer_name'', VString ''John'')],
      [(''customer_id'', VString ''2''), (''customer_name'', VString ''Jane'')]]"

definition demo_catalog :: "(error + string \<times> string) list" where
  "demo_catalog =
     [Inr (''customer_id'', ''text''), Inr (''customer_name'', ''text''),
      Inr (''id'', ''integer'')]"

definition orders_columns :: "(string \<times> string) list" where
  "orders_columns =
     [(''customer_name'', ''text''), (''type_count'', ''integer''),
      (''total_amount'', ''numeric''), (''order_date'', ''date''), (''id'', ''integer'')]"

definition demo_env :: env where
  "demo_env =
     \<lparr>unicode_table = (\<lambda>r. r),
      strings_TrimSpace = (\<lambda>s. s),
      os_Open = demo_files,
      csv_ReadAll = plain_csv_ReadAll,
      json_Valid = (\<lambda>s. False),
      json_Unmarshal_slice = (\<lambda>s. Inl ''invalid character''),
      json_Unmarshal_object = (\<lambda>s. Inl ''invalid character''),
      json_Marshal = (\<lambda>data. Inr ''[...]''),
      ExtractFromXLSX = (\<lambda>path. Inl ''zip: not a valid zip file''),
      ExtractFromXLS = (\<lambda>path. Inl ''not an excel file''),
      minioBucket = ''raw'',
      minio_PutObject = (\<lambda>w bucket name body. None),
      db_Exec = (\<lambda>w query args. None),
      db_Query = (\<lambda>w query args. Inr demo_catalog)\<rparr>"

text \<open>The same environment with an object store that refuses every write.\<close>

definition store_down_env :: env where
  "store_down_env =
     demo_env\<lparr>minio_PutObject := (\<lambda>w bucket name body. Some ''connection refused'')\<rparr>"

text \<open>The same environment with a warehouse that refuses to create tables.\<close>

definition no_ddl_env :: env where
  "no_ddl_env =
     demo_env\<lparr>db_Exec := (\<lambda>w query args.
        if strings_HasPrefix query ''CREATE TABLE'' then Some ''permission denied'' else None)\<rparr>"

text \<open>The same environment with a warehouse that refuses to create views.\<close>

definition no_view_env :: env where
  "no_view_env =
     demo_env\<lparr>db_Exec := (\<lambda>w query args.
        if strings_HasPrefix query ''CREATE OR REPLACE VIEW'' then Some ''permission denied''
        else None)\<rparr>"

definition world0 :: world where
  "world0 = \<lparr>db_calls = [], objects = [], log_lines = []\<rparr>"

text \<open>A second batch of two records, from another file.\<close>

definition products :: "DataRecord list" where
  "products =
     [[(''sku'', VString ''A-1''), (''price'', VString ''9.99'')],
      [(''sku'', VString ''B-2''), (''price'', VString ''12.50'')]]"

section \<open>The sanitizers\<close>

lemma runes_ascii: "list_all (\<lambda>b. b < 0x80) bs \<Longrightarrow> runes bs = bs"
  by (induction bs) (simp_all add: utf8_DecodeRune.simps)

lemma runes_nonempty: "bs \<noteq> [] \<Longrightarrow> runes bs \<noteq> []"
  by (cases bs) simp_all

lemma utf8_EncodeRune_nonempty: "utf8_EncodeRune r \<noteq> []"
  by (simp add: utf8_EncodeRune_def)

lemma strings_Map_nonempty: "s \<noteq> [] \<Longrightarrow> strings_Map f s \<noteq> []"
  by (cases "runes (map ord s)") (simp_all add: strings_Map_def runes_nonempty utf8_EncodeRune_nonempty)

lemma ascii_lower_ident: "ident_char c \<Longrightarrow> ascii_lower c = c"
  by (auto simp: ident_char_def lower_letter_def ascii_lower_def)

lemma ident_char_ascii: "ident_char c \<Longrightarrow> ord c < 0x80"
  by (auto simp: ident_char_def lower_letter_def)

lemma strings_ToLower_ident: "list_all ident_char s \<Longrightarrow> strings_ToLower U s = s"
  by (simp add: strings_ToLower_def list_all_iff ident_char_ascii ascii_lower_ident map_idI)

lemma strings_ToLower_nonempty: "s \<noteq> [] \<Longrightarrow> strings_ToLower U s \<noteq> []"
  by (simp add: strings_ToLower_def strings_Map_nonempty)

lemma keep_or_underscore_ord: "ident_char c \<Longrightarrow> keep_or_underscore (ord c) = ord c"
  by (auto simp: ident_char_def lower_letter_def keep_or_underscore_def)

lemma encode_keep: "utf8_EncodeRune (keep_or_underscore r) = [keep_or_underscore r]"
  by (simp add: utf8_EncodeRune_def keep_or_underscore_def)

lemma strings_Map_keep:
  "strings_Map keep_or_underscore s
     = map (\<lambda>r. char_of (keep_or_underscore r)) (runes (map ord s))"
  by (simp add: strings_Map_def encode_keep map_concat comp_def) 

lemma char_of_underscore: "char_of (95::nat) = CHR ''_''"
  by (simp add: char_of_eq_iff)

lemma ident_char_keep: "ident_char (char_of (keep_or_underscore r))"
  by (auto simp: ident_char_def lower_letter_def keep_or_underscore_def char_of_underscore)

lemma strings_Map_keep_ident: "list_all ident_char (strings_Map keep_or_underscore s)"
  by (simp add: strings_Map_keep list_all_iff ident_char_keep)

lemma strings_Map_keep_id: "list_all ident_char s \<Longrightarrow> strings_Map keep_or_underscore s = s"
proof -
  assume a: "list_all ident_char s"
  then have "list_all (\<lambda>b. b < 0x80) (map ord s)"
    by (simp add: list_all_iff ident_char_ascii)
  then have "runes (map ord s) = map ord s" by (rule runes_ascii)
  with a show ?thesis
    by (simp add: strings_Map_keep list_all_iff keep_or_underscore_ord map_idI)
qed


lemma hd_prefix_cases:
  "list_all ident_char s \<Longrightarrow> s \<noteq> [] \<Longrightarrow>
     \<not> ((ord CHR ''0'' \<le> ord (hd s) \<and> ord (hd s) \<le> ord CHR ''9'') \<or> hd s = CHR ''_'')
     \<Longrightarrow> lower_letter (hd s)"
  by (cases s) (auto simp: ident_char_def)


lemma SanitizeTableName_fixed: "clean_ident s \<Longrightarrow> SanitizeTableName U s = s"
  by (cases s) (auto simp: clean_ident_def SanitizeTableName_def Let_def strings_ToLower_ident strings_Map_keep_id lower_letter_def)

lemma take_keeps_hd: "t \<noteq> [] \<Longrightarrow> hd (take 63 t) = hd t"
  by (cases t) simp_all

lemma lower_letter_t: "lower_letter CHR ''t''" and lower_letter_c: "lower_letter CHR ''c''"
  by (simp_all add: lower_letter_def)

lemma finish_clean:
  assumes "list_all ident_char t2" and "lower_letter p"
  defines "t3 \<equiv> (if length t2 > 0
                \<and> ((ord CHR ''0'' \<le> ord (hd t2) \<and> ord (hd t2) \<le> ord CHR ''9'')
                    \<or> hd t2 = CHR ''_'')
             then [p, CHR ''_''] @ t2 else t2)"
  shows "clean_ident (if length t3 > 63 then take 63 t3 else t3)"
proof -
  have all3: "list_all ident_char t3"
    using assms(1,2) by (simp add: t3_def ident_char_def)
  have hd3: "t3 = [] \<or> lower_letter (hd t3)"
    using assms(1,2) hd_prefix_cases [of t2] by (auto simp: t3_def)
  have all_take: "list_all ident_char (take 63 t3)"
    using all3 by (auto simp: list_all_iff dest: in_set_takeD)
  show ?thesis
    using all3 hd3 all_take by (auto simp: clean_ident_def take_keeps_hd)
qed

lemma SanitizeTableName_clean: "clean_ident (SanitizeTableName U s)"
  unfolding SanitizeTableName_def Let_def
  using finish_clean [OF strings_Map_keep_ident lower_letter_t] by simp

lemma SanitizeColumnName_clean: "clean_ident (SanitizeColumnName U s)"
  unfolding SanitizeColumnName_def Let_def
  using finish_clean [OF strings_Map_keep_ident lower_letter_c] by simp

lemma SanitizeColumnName_fixed: "clean_ident s \<Longrightarrow> SanitizeColumnName U s = s"
  by (cases s) (auto simp: clean_ident_def SanitizeColumnName_def Let_def strings_ToLower_ident strings_Map_keep_id lower_letter_def)

lemma SanitizeTableName_nonempty: "s \<noteq> [] \<Longrightarrow> SanitizeTableName U s \<noteq> []"
  using strings_Map_nonempty [OF strings_ToLower_nonempty, of s keep_or_underscore U]
  by (auto simp: SanitizeTableName_def Let_def)

lemma SanitizeColumnName_nonempty: "s \<noteq> [] \<Longrightarrow> SanitizeColumnName U s \<noteq> []"
  using strings_Map_nonempty [OF strings_ToLower_nonempty, of s keep_or_underscore U]
  by (auto simp: SanitizeColumnName_def Let_def)

lemma clean_ident_matches: "clean_ident s \<Longrightarrow> s \<noteq> [] \<Longrightarrow> matches_identifier s"
  by (cases s) (auto simp: clean_ident_def)


text \<open>
  C3, as the code has it. For every input \<open>s\<close> and every Unicode table, both sanitizers
  are idempotent. For every non-empty \<open>s\<close> their output matches
  \<open>^[a-z_][a-z0-9_]{0,62}$\<close>; the empty name is left empty (the guard
  \<open>len(tableName) > 0\<close>), and the empty string does not match.
\<close>

theorem sanitize_idempotent_and_shaped:
  "SanitizeTableName U (SanitizeTableName U s) = SanitizeTableName U s
   \<and> SanitizeColumnName U (SanitizeColumnName U s) = SanitizeColumnName U s
   \<and> (if s = [] then SanitizeTableName U s = [] \<and> SanitizeColumnName U s = []
      else matches_identifier (SanitizeTableName U s)
           \<and> matches_identifier (SanitizeColumnName U s))"
proof -
  have idem: "SanitizeTableName U (SanitizeTableName U s) = SanitizeTableName U s"
    "SanitizeColumnName U (SanitizeColumnName U s) = SanitizeColumnName U s"
    by (simp_all add: SanitizeTableName_fixed SanitizeTableName_clean
        SanitizeColumnName_fixed SanitizeColumnName_clean)
  have empty: "SanitizeTableName U [] = []" "SanitizeColumnName U [] = []"
    by (simp_all add: SanitizeTableName_def SanitizeColumnName_def strings_ToLower_def
        strings_Map_def)
  have shaped: "matches_identifier (SanitizeTableName U s)"
    "matches_identifier (SanitizeColumnName U s)" if "s \<noteq> []"
    using that
    by (simp_all add: clean_ident_matches SanitizeTableName_clean SanitizeTableName_nonempty
        SanitizeColumnName_clean SanitizeColumnName_nonempty)
  show ?thesis
    using idem empty shaped by simp
qed

lemma sanitize_sales_example:
  "SanitizeTableName id ''2024 Sales-Data'' = ''t_2024_sales_data''"
  by code_simp

theorem sanitize_idempotent_and_shaped_witness:
  "SanitizeTableName id ''t_2024_sales_data'' = ''t_2024_sales_data''
   \<and> matches_identifier ''t_2024_sales_data''
   \<and> matches_identifier (SanitizeColumnName id ''Order Date'')"
  using sanitize_idempotent_and_shaped [of id "''2024 Sales-Data''"]
    sanitize_idempotent_and_shaped [of id "''Order Date''"]
  by (simp add: sanitize_sales_example)

text \<open>C3, as stated, fails at the empty name: its sanitized form is empty.\<close>

theorem sanitize_empty_counterexample:
  "\<not> matches_identifier (SanitizeTableName id [])
   \<and> \<not> matches_identifier (SanitizeColumnName id [])"
  by (simp add: SanitizeTableName_def SanitizeColumnName_def strings_ToLower_def
      strings_Map_def)

section \<open>What the warehouse path touches\<close>

lemma objects_log_Printf: "objects (log_Printf w l) = objects w"
  by (simp add: log_Printf_def)

lemma db_calls_log_Printf: "db_calls (log_Printf w l) = db_calls w"
  by (simp add: log_Printf_def)

lemma objects_CreateTableIfNotExists:
  "objects (fst (CreateTableIfNotExists env w t d)) = objects w"
  by (simp add: CreateTableIfNotExists_def Let_def db_exec_def objects_log_Printf
      split: option.splits)

lemma objects_insert_records: "objects (insert_records env q cols w d) = objects w"
  by (induction d arbitrary: w)
    (simp_all add: db_exec_def objects_log_Printf split: option.splits)

lemma objects_AnalyzeColumnsWithLLM:
  "objects (fst (AnalyzeColumnsWithLLM env w t)) = objects w"
  by (simp add: AnalyzeColumnsWithLLM_def db_query_def split: sum.splits)

lemma objects_CreateStarSchemaViews:
  "objects (fst (CreateStarSchemaViews env w t)) = objects w"
proof -
  obtain w1 r where a: "AnalyzeColumnsWithLLM env w t = (w1, r)"
    by (cases "AnalyzeColumnsWithLLM env w t")
  then have "objects w1 = objects w"
    using objects_AnalyzeColumnsWithLLM [of env w t] by simp
  with a show ?thesis
    by (cases r)
      (simp_all add: CreateStarSchemaViews_def Let_def db_exec_def objects_log_Printf
        split: option.splits)
qed

lemma objects_LoadToPostgreSQL: "objects (fst (LoadToPostgreSQL env w d)) = objects w"
proof (cases "length d = 0")
  case True
  then show ?thesis by (simp add: LoadToPostgreSQL_def)
next
  case False
  obtain w1 r where ct:
    "CreateTableIfNotExists env w (''auto_table_'' @ itoa (length d)) d = (w1, r)"
    by (cases "CreateTableIfNotExists env w (''auto_table_'' @ itoa (length d)) d")
  then have o1: "objects w1 = objects w"
    using objects_CreateTableIfNotExists [of env w "''auto_table_'' @ itoa (length d)" d]
    by simp
  show ?thesis
  proof (cases r)
    case (Some e)
    with False ct o1 show ?thesis by (simp add: LoadToPostgreSQL_def)
  next
    case None
    have v: "objects (fst (CreateStarSchemaViews env (insert_records env q cols w1 d) t))
               = objects w" for q cols t
      by (simp add: objects_CreateStarSchemaViews objects_insert_records o1)
    have v': "objects w3 = objects w"
      if "CreateStarSchemaViews env (insert_records env q cols w1 d) t = (w3, r3)"
      for q cols t w3 r3
      using v [of q cols t] that by simp
    show ?thesis
      using False ct None
      by (auto simp: LoadToPostgreSQL_def Let_def objects_log_Printf
          split: prod.splits option.splits dest: v')
  qed
qed


lemma strings_HasPrefix_append: "strings_HasPrefix (p @ s) (p @ q) = strings_HasPrefix s q"
  by (induction p) simp_all

lemma db_calls_CreateTableIfNotExists:
  assumes "d \<noteq> []"
  shows "\<exists>q. db_calls (fst (CreateTableIfNotExists env w t d)) = db_calls w @ [Exec q []]
           \<and> strings_HasPrefix q
               (''CREATE TABLE IF NOT EXISTS '' @ SanitizeTableName (unicode_table env) t @ '' ('')"
  using assms
  by (simp add: CreateTableIfNotExists_def Let_def db_exec_def db_calls_log_Printf
      strings_HasPrefix_append split: option.splits)

lemma db_calls_insert_records:
  "db_calls (insert_records env q cols w d)
     = db_calls w @ map (\<lambda>r. Exec q (map (index r) cols)) d"
  by (induction d arbitrary: w)
    (simp_all add: db_exec_def db_calls_log_Printf split: option.splits)

lemma AnalyzeColumnsWithLLM_calls:
  "db_calls (fst (AnalyzeColumnsWithLLM env w t)) = db_calls w @ [Query catalog_query [VString t]]"
  by (simp add: AnalyzeColumnsWithLLM_def db_query_def split: sum.splits)

lemma CreateStarSchemaViews_calls:
  "db_calls (fst (CreateStarSchemaViews env w t))
     = db_calls w @ Query catalog_query [VString t]
         # (case snd (AnalyzeColumnsWithLLM env w t) of
              Inl err \<Rightarrow> []
            | Inr analysis \<Rightarrow>
                [Exec (''CREATE OR REPLACE VIEW '' @ t @ ''_star_view AS SELECT * FROM '' @ t) []])"
proof -
  obtain w1 r where a: "AnalyzeColumnsWithLLM env w t = (w1, r)"
    by (cases "AnalyzeColumnsWithLLM env w t")
  then have "db_calls w1 = db_calls w @ [Query catalog_query [VString t]]"
    using AnalyzeColumnsWithLLM_calls [of env w t] by simp
  with a show ?thesis
    by (cases r)
      (simp_all add: CreateStarSchemaViews_def Let_def db_exec_def db_calls_log_Printf
        split: option.splits)
qed

section \<open>The view synthesizer\<close>

lemma demo_scan: "scan_rows demo_catalog [] = Inr (map projr demo_catalog)"
  by (simp add: demo_catalog_def)

text \<open>
  C7. Whenever the column analysis of table \<open>t\<close> returns a result, whatever its
  dimensions and facts are, \<open>CreateStarSchemaViews\<close> sends, after the catalog query, exactly
  one statement: create or replace the view \<open>t_star_view\<close> as \<open>SELECT * FROM t\<close>. The
  statement is a function of \<open>t\<close> alone.
\<close>

theorem view_is_full_projection:
  assumes "AnalyzeColumnsWithLLM env w t = (w1, Inr analysis)"
  shows "db_calls w1 = db_calls w @ [Query catalog_query [VString t]]
         \<and> db_calls (fst (CreateStarSchemaViews env w t))
             = db_calls w1
                 @ [Exec (''CREATE OR REPLACE VIEW '' @ t @ ''_star_view AS SELECT * FROM '' @ t) []]"
  using assms AnalyzeColumnsWithLLM_calls [of env w t] CreateStarSchemaViews_calls [of env w t]
  by simp

theorem view_is_full_projection_witness:
  "db_calls (fst (CreateStarSchemaViews demo_env world0 ''auto_table_2''))
     = [Query catalog_query [VString ''auto_table_2''],
        Exec ''CREATE OR REPLACE VIEW auto_table_2_star_view AS SELECT * FROM auto_table_2'' []]"
proof -
  obtain w1 analysis where
    a: "AnalyzeColumnsWithLLM demo_env world0 ''auto_table_2'' = (w1, Inr analysis)"
    by (simp add: AnalyzeColumnsWithLLM_def db_query_def demo_env_def demo_scan)
  show ?thesis
    using view_is_full_projection [OF a] by (simp add: world0_def)
qed

section \<open>The loader\<close>

text \<open>
  C10. On a batch of zero records \<open>LoadToPostgreSQL\<close> and \<open>CreateTableIfNotExists\<close> return
  \<open>nil\<close> and leave the world as it was: no statement is sent to the warehouse, so no
  table, row or view is created.
\<close>

theorem empty_batch_is_noop:
  "LoadToPostgreSQL env w [] = (w, None) \<and> CreateTableIfNotExists env w tableName [] = (w, None)"
  by (simp add: LoadToPostgreSQL_def CreateTableIfNotExists_def)

theorem empty_batch_is_noop_witness:
  "LoadToPostgreSQL demo_env world0 [] = (world0, None)
   \<and> CreateTableIfNotExists demo_env world0 ''auto_table_0'' [] = (world0, None)"
  using empty_batch_is_noop [of demo_env world0 "''auto_table_0''"] by simp

lemma LoadToPostgreSQL_table_failure:
  assumes "data \<noteq> []"
    and "CreateTableIfNotExists env w (''auto_table_'' @ itoa (length data)) data = (w1, Some err)"
  shows "LoadToPostgreSQL env w data = (w1, Some (''failed to create table: '' @ err))"
  using assms by (simp add: LoadToPostgreSQL_def)

lemma LoadToPostgreSQL_run:
  fixes data :: "DataRecord list"
  defines "t \<equiv> ''auto_table_'' @ itoa (length data)"
  assumes "data \<noteq> []" and "CreateTableIfNotExists env w t data = (w1, None)"
  shows "\<exists>q cols w3 r.
           strings_HasPrefix q (''INSERT INTO '' @ t @ '' ('')
           \<and> CreateStarSchemaViews env (insert_records env q cols w1 data) t = (w3, r)
           \<and> LoadToPostgreSQL env w data
               = (log_Printf
                    (case r of
                       Some e \<Rightarrow> log_Printf w3 (''Warning: Failed to create star schema views: '' @ e)
                     | None \<Rightarrow> w3)
                    (''Successfully inserted '' @ itoa (length data) @ '' records into table ''
                       @ t @ '' and created star schema view''),
                  None)"
proof -
  let ?cols = "map fst (data ! 0)"
  let ?q = "''INSERT INTO '' @ t @ '' (''
              @ strings_Join (map (SanitizeColumnName (unicode_table env)) ?cols) '', ''
              @ '') VALUES (''
              @ strings_Join (map (\<lambda>i. ''$'' @ itoa (i + 1)) [0 ..< length ?cols]) '', '' @ '')''"
  obtain w3 r where v:
    "CreateStarSchemaViews env (insert_records env ?q ?cols w1 data) t = (w3, r)"
    by (cases "CreateStarSchemaViews env (insert_records env ?q ?cols w1 data) t")
  have p: "strings_HasPrefix ?q (''INSERT INTO '' @ t @ '' ('')"
    by (simp add: strings_HasPrefix_append)
  have l: "LoadToPostgreSQL env w data
            = (log_Printf
                 (case r of
                    Some e \<Rightarrow> log_Printf w3 (''Warning: Failed to create star schema views: '' @ e)
                  | None \<Rightarrow> w3)
                 (''Successfully inserted '' @ itoa (length data) @ '' records into table ''
                    @ t @ '' and created star schema view''),
               None)"
    using assms(2,3) v unfolding t_def
    by (cases r) (simp_all add: LoadToPostgreSQL_def Let_def)
  from p v l show ?thesis by blast
qed

lemma itoa_2: "itoa 2 = ''2''"
  by code_simp

lemma len_customers: "length customers = 2"
  by (simp add: customers_def)

lemma no_view_table_ok:
  "snd (CreateTableIfNotExists no_view_env world0 ''auto_table_2'' customers) = None"
  by (simp add: CreateTableIfNotExists_def db_exec_def no_view_env_def demo_env_def customers_def Let_def)

lemma no_view_fails:
  "snd (CreateStarSchemaViews no_view_env w2 t)
     = Some ''failed to create star schema view: permission denied''"
  by (simp add: CreateStarSchemaViews_def AnalyzeColumnsWithLLM_def db_query_def db_exec_def
      no_view_env_def demo_env_def demo_scan Let_def)

text \<open>
  C5, as the code has it. A failure to create the view is not fatal: \<open>LoadToPostgreSQL\<close>
  fails exactly when table creation fails, with that error. When table creation
  succeeded, the outcome of \<open>CreateStarSchemaViews\<close> only decides whether the line
  \<open>Warning: Failed to create star schema views: ...\<close> is logged before the final line.
\<close>

theorem view_failure_is_only_a_warning:
  fixes data :: "DataRecord list"
  defines "t \<equiv> ''auto_table_'' @ itoa (length data)"
  shows "snd (LoadToPostgreSQL env w data)
           = (case snd (CreateTableIfNotExists env w t data) of
                None \<Rightarrow> None
              | Some err \<Rightarrow> Some (''failed to create table: '' @ err))
         \<and> (data \<noteq> [] \<and> snd (CreateTableIfNotExists env w t data) = None
            \<longrightarrow> (\<exists>w2 w3 r.
                  CreateStarSchemaViews env w2 t = (w3, r)
                  \<and> log_lines (fst (LoadToPostgreSQL env w data))
                      = log_lines w3
                        @ (case r of
                             Some e \<Rightarrow> [''Warning: Failed to create star schema views: '' @ e]
                           | None \<Rightarrow> [])
                        @ [''Successfully inserted '' @ itoa (length data)
                             @ '' records into table '' @ t
                             @ '' and created star schema view'']))"
proof (cases "data = []")
  case True
  then show ?thesis
    by (simp add: LoadToPostgreSQL_def CreateTableIfNotExists_def)
next
  case False
  obtain w1 r1 where ct: "CreateTableIfNotExists env w t data = (w1, r1)"
    by (cases "CreateTableIfNotExists env w t data")
  show ?thesis
  proof (cases r1)
    case (Some err)
    with False ct show ?thesis
      using LoadToPostgreSQL_table_failure [of data env w w1 err] by (simp add: t_def)
  next
    case None
    with False ct obtain q cols w3 r where
      v: "CreateStarSchemaViews env (insert_records env q cols w1 data) t = (w3, r)" and
      l: "LoadToPostgreSQL env w data
            = (log_Printf
                 (case r of
                    Some e \<Rightarrow> log_Printf w3 (''Warning: Failed to create star schema views: '' @ e)
                  | None \<Rightarrow> w3)
                 (''Successfully inserted '' @ itoa (length data) @ '' records into table ''
                    @ t @ '' and created star schema view''),
               None)"
      using LoadToPostgreSQL_run [of data env w w1] unfolding t_def by blast
    have "log_lines (fst (LoadToPostgreSQL env w data))
            = log_lines w3
              @ (case r of
                   Some e \<Rightarrow> [''Warning: Failed to create star schema views: '' @ e]
                 | None \<Rightarrow> [])
              @ [''Successfully inserted '' @ itoa (length data)
                   @ '' records into table '' @ t @ '' and created star schema view'']"
      using l by (cases r) (simp_all add: log_Printf_def)
    with v l ct None show ?thesis by auto
  qed
qed

theorem view_failure_is_only_a_warning_witness:
  "snd (LoadToPostgreSQL no_view_env world0 customers) = None"
  using view_failure_is_only_a_warning [of no_view_env world0 customers] no_view_table_ok
  by (simp add: len_customers itoa_2)

text \<open>
  C5, as stated, fails: with a warehouse that refuses to create views, view creation
  fails, the load of two records still returns \<open>nil\<close>, and the failure is in the log.
\<close>

theorem view_failure_counterexample:
  "snd (CreateStarSchemaViews no_view_env world0 ''auto_table_2'')
     = Some ''failed to create star schema view: permission denied''
   \<and> snd (LoadToPostgreSQL no_view_env world0 customers) = None
   \<and> ''Warning: Failed to create star schema views: failed to create star schema view: permission denied''
       \<in> set (log_lines (fst (LoadToPostgreSQL no_view_env world0 customers)))"
proof -
  obtain w1 where ct:
    "CreateTableIfNotExists no_view_env world0 (''auto_table_'' @ itoa (length customers)) customers
       = (w1, None)"
    using no_view_table_ok
    by (cases "CreateTableIfNotExists no_view_env world0 ''auto_table_2'' customers")
      (simp add: len_customers itoa_2)
  have ne: "customers \<noteq> []" by (simp add: customers_def)
  from LoadToPostgreSQL_run [OF ne ct] obtain q cols w3 r where
    v: "CreateStarSchemaViews no_view_env (insert_records no_view_env q cols w1 customers)
          (''auto_table_'' @ itoa (length customers)) = (w3, r)" and
    l: "LoadToPostgreSQL no_view_env world0 customers
          = (log_Printf
               (case r of
                  Some e \<Rightarrow> log_Printf w3 (''Warning: Failed to create star schema views: '' @ e)
                | None \<Rightarrow> w3)
               (''Successfully inserted '' @ itoa (length customers) @ '' records into table ''
                  @ (''auto_table_'' @ itoa (length customers)) @ '' and created star schema view''),
             None)"
    by blast
  from v have r: "r = Some ''failed to create star schema view: permission denied''"
    using no_view_fails [of "insert_records no_view_env q cols w1 customers"
        "''auto_table_'' @ itoa (length customers)"]
    by simp
  show ?thesis
    by (simp add: no_view_fails l r log_Printf_def)
qed

section \<open>The two sinks\<close>

lemma Transform_same: "Transform data = data"
proof -
  have same: "(\<lambda>(key, v). (key, (case v of VString s \<Rightarrow> VString s | _ \<Rightarrow> v))) = id"
    by (auto simp: fun_eq_iff split: val.splits)
  show ?thesis
    by (simp only: Transform_def same list.map_id0 id_apply)
qed

lemma ProcessETLFromFile_after_extract:
  assumes "ExtractFromFile env filePath = Inr data"
  shows "ProcessETLFromFile env w filePath
           = (case LoadToMinIO env
                     (log_Printf w (''Processing file '' @ filePath @ '' with format: ''
                                      @ itoa (FileFormat_iota (GetFileFormat env filePath))))
                     (Transform data) (''raw_'' @ filepath_Base filePath) of
                (w1, Some err) \<Rightarrow> (w1, Some (''load to MinIO failed: '' @ err))
              | (w1, None) \<Rightarrow>
                  (case LoadToPostgreSQL env w1 (Transform data) of
                     (w2, Some err) \<Rightarrow> (w2, Some (''load to PostgreSQL failed: '' @ err))
                   | (w2, None) \<Rightarrow>
                       (log_Printf w2 ''ETL process completed successfully'', None)))"
  by (simp only: ProcessETLFromFile_def Let_def assms sum.case)

lemma LoadToMinIO_failure:
  assumes "LoadToMinIO env w data fileName = (w1, Some err)"
  shows "w1 = w"
  using assms by (auto simp: LoadToMinIO_def Let_def split: sum.splits option.splits)

lemma LoadToMinIO_success:
  assumes "LoadToMinIO env w data fileName = (w1, None)"
  shows "\<exists>body. json_Marshal env data = Inr body
           \<and> objects w1 = objects w @ [(minioBucket env, ''raw/'' @ fileName, body)]
           \<and> db_calls w1 = db_calls w"
  using assms by (auto simp: LoadToMinIO_def Let_def split: sum.splits option.splits)

lemma base_customers: "filepath_Base ''customers.csv'' = ''customers.csv''"
  by code_simp

lemma extract_customers_store_down:
  "ExtractFromFile store_down_env ''customers.csv'' = Inr customers"
  by code_simp

lemma extract_customers_no_ddl:
  "ExtractFromFile no_ddl_env ''customers.csv'' = Inr customers"
  by code_simp

text \<open>
  C1, as the code has it. Let the extraction of a file succeed. If the archive write
  fails, \<open>ProcessETLFromFile\<close> returns \<open>load to MinIO failed: ...\<close> at once: nothing is
  sent to the warehouse and nothing is stored. If the archive write succeeds, the
  object it stored is still there when the run ends, whatever the warehouse load
  returned.
\<close>

theorem archive_failure_aborts_and_archive_survives:
  fixes env :: env and w :: world and filePath :: string
  defines "w0 \<equiv> log_Printf w (''Processing file '' @ filePath @ '' with format: ''
                                  @ itoa (FileFormat_iota (GetFileFormat env filePath)))"
  assumes "ExtractFromFile env filePath = Inr data"
  shows "(LoadToMinIO env w0 data (''raw_'' @ filepath_Base filePath) = (w1, Some err)
            \<longrightarrow> ProcessETLFromFile env w filePath = (w1, Some (''load to MinIO failed: '' @ err))
                \<and> db_calls w1 = db_calls w \<and> objects w1 = objects w)
         \<and> (LoadToMinIO env w0 data (''raw_'' @ filepath_Base filePath) = (w1, None)
            \<longrightarrow> objects (fst (ProcessETLFromFile env w filePath)) = objects w1
                \<and> (\<exists>body. objects w1
                      = objects w @ [(minioBucket env, ''raw/raw_'' @ filepath_Base filePath, body)]))"
proof (intro conjI impI)
  assume f: "LoadToMinIO env w0 data (''raw_'' @ filepath_Base filePath) = (w1, Some err)"
  then show "ProcessETLFromFile env w filePath = (w1, Some (''load to MinIO failed: '' @ err))"
    using ProcessETLFromFile_after_extract [OF assms(2), of w]
    by (simp add: w0_def Transform_same)
  from f have "w1 = w0" by (rule LoadToMinIO_failure)
  then show "db_calls w1 = db_calls w" "objects w1 = objects w"
    by (simp_all add: w0_def log_Printf_def)
next
  assume s: "LoadToMinIO env w0 data (''raw_'' @ filepath_Base filePath) = (w1, None)"
  obtain w2 r where l: "LoadToPostgreSQL env w1 data = (w2, r)"
    by (cases "LoadToPostgreSQL env w1 data")
  then have "objects w2 = objects w1"
    using objects_LoadToPostgreSQL [of env w1 data] by simp
  with s l show "objects (fst (ProcessETLFromFile env w filePath)) = objects w1"
    using ProcessETLFromFile_after_extract [OF assms(2), of w]
    by (cases r) (simp_all add: w0_def objects_log_Printf Transform_same)
  show "\<exists>body. objects w1
          = objects w @ [(minioBucket env, ''raw/raw_'' @ filepath_Base filePath, body)]"
    using LoadToMinIO_success [OF s] by (auto simp: w0_def objects_log_Printf)
qed

theorem archive_failure_aborts_and_archive_survives_witness:
  "snd (ProcessETLFromFile store_down_env world0 ''customers.csv'')
     = Some ''load to MinIO failed: connection refused''
   \<and> db_calls (fst (ProcessETLFromFile store_down_env world0 ''customers.csv'')) = []
   \<and> objects (fst (ProcessETLFromFile no_ddl_env world0 ''customers.csv''))
       = [(''raw'', ''raw/raw_customers.csv'', ''[...]'')]"
proof -
  let ?w0 = "\<lambda>env. log_Printf world0
               (''Processing file '' @ ''customers.csv'' @ '' with format: ''
                  @ itoa (FileFormat_iota (GetFileFormat env ''customers.csv'')))"
  let ?w1 = "(?w0 no_ddl_env)\<lparr>objects := [(''raw'', ''raw/raw_customers.csv'', ''[...]'')]\<rparr>"
  have m1: "LoadToMinIO store_down_env (?w0 store_down_env) customers
              (''raw_'' @ filepath_Base ''customers.csv'')
              = (?w0 store_down_env, Some ''connection refused'')"
    by (simp add: LoadToMinIO_def store_down_env_def demo_env_def)
  have m2: "LoadToMinIO no_ddl_env (?w0 no_ddl_env) customers
              (''raw_'' @ filepath_Base ''customers.csv'') = (?w1, None)"
    by (simp add: LoadToMinIO_def no_ddl_env_def demo_env_def base_customers log_Printf_def
        world0_def)
  have a: "ProcessETLFromFile store_down_env world0 ''customers.csv''
             = (?w0 store_down_env, Some (''load to MinIO failed: '' @ ''connection refused''))
           \<and> db_calls (?w0 store_down_env) = db_calls world0"
    using archive_failure_aborts_and_archive_survives
      [OF extract_customers_store_down, of world0 "?w0 store_down_env" "''connection refused''"]
      m1
    by blast
  have b: "objects (fst (ProcessETLFromFile no_ddl_env world0 ''customers.csv'')) = objects ?w1"
    using archive_failure_aborts_and_archive_survives
      [OF extract_customers_no_ddl, of world0 ?w1] m2
    by blast
  from a b show ?thesis
    by (simp add: world0_def)
qed

text \<open>
  C1, as stated, fails: with an object store that refuses the write, the run on
  \<open>customers.csv\<close> ends with the archive error and no statement has reached the
  warehouse.
\<close>

theorem archive_failure_counterexample:
  "snd (ProcessETLFromFile store_down_env world0 ''customers.csv'')
     = Some ''load to MinIO failed: connection refused''
   \<and> db_calls (fst (ProcessETLFromFile store_down_env world0 ''customers.csv'')) = []"
proof -
  have e1: "ExtractFromFile store_down_env ''customers.csv'' = Inr customers"
    by (rule extract_customers_store_down)
  have m1: "LoadToMinIO store_down_env w0 (Transform customers) n = (w0, Some ''connection refused'')"
    for w0 n
    by (simp add: LoadToMinIO_def store_down_env_def demo_env_def)
  show ?thesis
    by (simp add: ProcessETLFromFile_after_extract [OF e1] m1 db_calls_log_Printf world0_def)
qed

section \<open>The target table\<close>

lemma digit_ident: "(d::nat) < 10 \<Longrightarrow> ident_char (char_of (48 + d))"
  by (simp add: ident_char_def)

lemma itoa_ident: "list_all ident_char (itoa n)"
proof (induction n rule: itoa.induct)
  case (1 n)
  show ?case
  proof (cases "n < 10")
    case True
    then show ?thesis by (subst itoa.simps) (simp add: digit_ident)
  next
    case False
    with 1 show ?thesis by (subst itoa.simps) (simp add: digit_ident)
  qed
qed

lemma itoa_length: "n < 10 ^ k \<Longrightarrow> 0 < k \<Longrightarrow> length (itoa n) \<le> k"
proof (induction k arbitrary: n)
  case 0
  then show ?case by simp
next
  case (Suc k)
  show ?case
  proof (cases "n < 10")
    case True
    then show ?thesis by (subst itoa.simps) simp
  next
    case False
    with Suc.prems have k: "0 < k" by (cases k) simp_all
    from Suc.prems have "n div 10 < 10 ^ k" by (simp add: less_mult_imp_div_less mult.commute)
    with Suc.IH k have "length (itoa (n div 10)) \<le> k" by simp
    with False show ?thesis by (subst itoa.simps) simp
  qed
qed

lemma auto_table_clean:
  assumes "n < 2 ^ 63"
  shows "clean_ident (''auto_table_'' @ itoa n)"
proof -
  have "n < 10 ^ 19" using assms by simp
  then have "length (itoa n) \<le> 19" by (rule itoa_length) simp
  then show ?thesis
    using itoa_ident [of n] by (simp add: clean_ident_def ident_char_def lower_letter_def)
qed

lemma list_all_targets_inserts:
  "strings_HasPrefix q (''INSERT INTO '' @ t @ '' ('')
     \<Longrightarrow> list_all (targets_table t) (map (\<lambda>r. Exec q (f r)) d)"
  by (simp add: list_all_iff)

text \<open>
  C8. For a batch of \<open>n\<close> records (\<open>0 < n\<close>, and \<open>n\<close> a Go \<open>int\<close>), every statement that
  \<open>LoadToPostgreSQL\<close> sends to the warehouse is about the table \<open>auto_table_n\<close>: the
  table creation, every insert, the catalog query and the view. The name depends on
  the batch through \<open>n\<close> only, so two batches of the same size share the table.
\<close>

theorem table_name_from_record_count:
  assumes "length data = n" and "0 < n" and "n < 2 ^ 63"
  shows "\<exists>calls. db_calls (fst (LoadToPostgreSQL env w data)) = db_calls w @ calls
           \<and> calls \<noteq> [] \<and> list_all (targets_table (''auto_table_'' @ itoa n)) calls"
proof -
  let ?t = "''auto_table_'' @ itoa n"
  have ne: "data \<noteq> []" using assms by auto
  have san: "SanitizeTableName (unicode_table env) ?t = ?t"
    by (rule SanitizeTableName_fixed [OF auto_table_clean [OF assms(3)]])
  obtain w1 r1 where ct: "CreateTableIfNotExists env w (''auto_table_'' @ itoa (length data)) data = (w1, r1)"
    by (cases "CreateTableIfNotExists env w (''auto_table_'' @ itoa (length data)) data")
  from db_calls_CreateTableIfNotExists [OF ne, of env w ?t] ct san assms(1)
  obtain q0 where
    c1: "db_calls w1 = db_calls w @ [Exec q0 []]" and
    p0: "strings_HasPrefix q0 (''CREATE TABLE IF NOT EXISTS '' @ ?t @ '' ('')"
    by auto
  show ?thesis
  proof (cases r1)
    case (Some err)
    then have "LoadToPostgreSQL env w data = (w1, Some (''failed to create table: '' @ err))"
      using LoadToPostgreSQL_table_failure [OF ne] ct by simp
    with c1 p0 show ?thesis by simp
  next
    case None
    with ct have ct': "CreateTableIfNotExists env w (''auto_table_'' @ itoa (length data)) data = (w1, None)"
      by simp
    from LoadToPostgreSQL_run [OF ne ct'] obtain q cols w3 r where
      pq0: "strings_HasPrefix q (''INSERT INTO '' @ (''auto_table_'' @ itoa (length data)) @ '' ('')" and
      v0: "CreateStarSchemaViews env (insert_records env q cols w1 data)
             (''auto_table_'' @ itoa (length data)) = (w3, r)" and
      l0: "LoadToPostgreSQL env w data
             = (log_Printf
                  (case r of
                     Some e \<Rightarrow> log_Printf w3 (''Warning: Failed to create star schema views: '' @ e)
                   | None \<Rightarrow> w3)
                  (''Successfully inserted '' @ itoa (length data) @ '' records into table ''
                     @ (''auto_table_'' @ itoa (length data)) @ '' and created star schema view''),
                None)"
      by blast
    have pq: "strings_HasPrefix q (''INSERT INTO '' @ ?t @ '' ('')"
      using pq0 by (simp only: assms(1))
    have v: "CreateStarSchemaViews env (insert_records env q cols w1 data) ?t = (w3, r)"
      using v0 by (simp only: assms(1))
    have l: "db_calls (fst (LoadToPostgreSQL env w data)) = db_calls w3"
      by (cases r) (simp_all only: l0 fst_conv db_calls_log_Printf option.case)
    let ?ins = "map (\<lambda>r. Exec q (map (index r) cols)) data"
    let ?view = "(case snd (AnalyzeColumnsWithLLM env (insert_records env q cols w1 data) ?t) of
                    Inl err \<Rightarrow> []
                  | Inr analysis \<Rightarrow>
                      [Exec (''CREATE OR REPLACE VIEW '' @ ?t @ ''_star_view AS SELECT * FROM '' @ ?t) []])"
    have "db_calls w3 = db_calls w @ (Exec q0 [] # ?ins @ Query catalog_query [VString ?t] # ?view)"
      using CreateStarSchemaViews_calls [of env "insert_records env q cols w1 data" ?t] v
      by (simp add: db_calls_insert_records c1)
    moreover have "list_all (targets_table ?t) (Exec q0 [] # ?ins @ Query catalog_query [VString ?t] # ?view)"
      using p0 list_all_targets_inserts [OF pq]
      by (cases "snd (AnalyzeColumnsWithLLM env (insert_records env q cols w1 data) ?t)") simp_all
    ultimately show ?thesis using l by (intro exI [of _ "Exec q0 [] # ?ins @ Query catalog_query [VString ?t] # ?view"]) simp
  qed
qed

theorem table_name_from_record_count_witness:
  "list_all (targets_table ''auto_table_2'')
     (db_calls (fst (LoadToPostgreSQL demo_env world0 customers)))
   \<and> list_all (targets_table ''auto_table_2'')
       (db_calls (fst (LoadToPostgreSQL demo_env world0 products)))"
proof -
  have n: "length customers = 2" "length products = 2" "(0::nat) < 2" "(2::nat) < 2 ^ 63"
    by (simp_all add: customers_def products_def)
  show ?thesis
    using table_name_from_record_count [OF n(1) n(3) n(4), of demo_env world0]
      table_name_from_record_count [OF n(2) n(3) n(4), of demo_env world0]
    by (auto simp: world0_def itoa_2)
qed

section \<open>The column classifier\<close>

lemma classify_columns_step:
  "classify_columns U ((colName, colType) # columns) result
     = classify_columns U columns
         (if dimension_keyword U colName
          then result\<lparr>Dimensions := AList.update colName ''dimension'' (Dimensions result)\<rparr>
          else if fact_keyword U colName then result\<lparr>Facts := Facts result @ [colName]\<rparr>
          else result)"
  by (simp add: Let_def dimension_keyword_def fact_keyword_def)

lemma classify_columns_Facts:
  "Facts (classify_columns U columns result)
     = Facts result
       @ map fst (filter (\<lambda>col. fact_keyword U (fst col) \<and> \<not> dimension_keyword U (fst col))
                    columns)"
proof (induction columns arbitrary: result)
  case Nil
  show ?case by simp
next
  case (Cons col columns)
  obtain colName colType where col: "col = (colName, colType)" by (cases col)
  show ?case
    unfolding col classify_columns_step Cons.IH by simp
qed

lemma classify_columns_Dimensions:
  "map_of (Dimensions (classify_columns U columns result)) name
     = (if name \<in> set (map fst columns) \<and> dimension_keyword U name then Some ''dimension''
        else map_of (Dimensions result) name)"
proof (induction columns arbitrary: result)
  case Nil
  show ?case by simp
next
  case (Cons col columns)
  obtain colName colType where col: "col = (colName, colType)" by (cases col)
  show ?case
    unfolding col classify_columns_step Cons.IH by (simp add: update_conv')
qed

lemma type_count_keywords:
  "dimension_keyword id ''type_count''" "fact_keyword id ''type_count''"
  by code_simp+

text \<open>
  C9. After the classification loop over the columns of a table, a name is in the
  facts list exactly when it is a column whose lower-cased name contains a fact
  keyword and no dimension keyword; it is a dimension exactly when it is a column
  whose lower-cased name contains a dimension keyword. So a column with a keyword of
  each kind, such as \<open>type_count\<close>, is a dimension and never a fact.
\<close>

theorem dimension_keywords_take_precedence:
  fixes U :: "rune \<Rightarrow> rune" and columns :: "(string \<times> string) list" and t :: string
  defines "result \<equiv> classify_columns U columns
                      \<lparr>TableName = t, Dimensions = [], Facts = [], Relationships = []\<rparr>"
  shows "(name \<in> set (Facts result)
            \<longleftrightarrow> name \<in> set (map fst columns) \<and> fact_keyword U name
                \<and> \<not> dimension_keyword U name)
         \<and> (map_of (Dimensions result) name = Some ''dimension''
            \<longleftrightarrow> name \<in> set (map fst columns) \<and> dimension_keyword U name)
         \<and> (dimension_keyword U name \<longrightarrow> name \<notin> set (Facts result))"
  unfolding result_def
  by (auto simp: classify_columns_Facts classify_columns_Dimensions)

theorem dimension_keywords_take_precedence_witness:
  "dimension_keyword id ''type_count'' \<and> fact_keyword id ''type_count''
   \<and> ''type_count'' \<notin> set (Facts (classify_columns id orders_columns
         \<lparr>TableName = ''orders'', Dimensions = [], Facts = [], Relationships = []\<rparr>))
   \<and> map_of (Dimensions (classify_columns id orders_columns
         \<lparr>TableName = ''orders'', Dimensions = [], Facts = [], Relationships = []\<rparr>))
        ''type_count'' = Some ''dimension''"
proof -
  have m: "''type_count'' \<in> set (map fst orders_columns)"
    by (simp add: orders_columns_def)
  show ?thesis
    using dimension_keywords_take_precedence [of "''type_count''" id orders_columns "''orders''"]
      type_count_keywords m
    by blast
qed

section \<open>The delimited-text extractor\<close>




lemma plain_csv_ReadAll_rectangular:
  assumes "plain_csv_ReadAll text = Inr (headers # rows)"
  shows "list_all (\<lambda>row. length row = length headers) rows"
  using assms by (auto simp: plain_csv_ReadAll_def Let_def split: if_splits)



lemma read_header_only:
  "csv_ReadAll demo_env (''customer_id,customer_name'' @ [CHR 0x0A])
     = Inr [[''customer_id'', ''customer_name'']]"
  by code_simp

lemma read_empty: "csv_ReadAll demo_env [] = Inr []"
  by code_simp




text \<open>
  C2, as the code has it. The error \<open>no data found in CSV file\<close> is returned when the
  reader finds no record at all, not even a header. A header with no row after it
  gives the empty sequence of records and no error.
\<close>

theorem csv_without_rows:
  assumes "os_Open env filePath = Inr file"
  shows "(csv_ReadAll env file = Inr [] \<longrightarrow>
            ExtractFromCSV env filePath = Inl ''no data found in CSV file'')
         \<and> (csv_ReadAll env file = Inr [headers] \<longrightarrow> ExtractFromCSV env filePath = Inr [])"
  using assms by (simp add: ExtractFromCSV_def)

theorem csv_without_rows_witness:
  "ExtractFromCSV demo_env ''empty.csv'' = Inl ''no data found in CSV file''
   \<and> ExtractFromCSV demo_env ''header_only.csv'' = Inr []"
proof -
  have o1: "os_Open demo_env ''empty.csv'' = Inr []"
    and o2: "os_Open demo_env ''header_only.csv'' = Inr (''customer_id,customer_name'' @ [CHR 0x0A])"
    by (simp_all add: demo_env_def demo_files_def)
  show ?thesis
    using csv_without_rows [OF o1] csv_without_rows [OF o2] read_empty read_header_only
    by blast
qed

text \<open>C2, as stated, fails on a file that holds a header line only.\<close>

theorem csv_header_only_counterexample:
  "csv_ReadAll demo_env (''customer_id,customer_name'' @ [CHR 0x0A])
     = Inr [[''customer_id'', ''customer_name'']]
   \<and> ExtractFromCSV demo_env ''header_only.csv'' = Inr []"
  by code_simp

section \<open>Type inference\<close>

lemma note_kinds:
  "foldl (note_kind U) k vals
     = \<lparr>hasInt = hasInt k \<or> list_ex is_integer vals,
        hasFloat = hasFloat k \<or> list_ex is_float vals,
        hasString = hasString k \<or> list_ex (plain_text U) vals,
        hasDate = hasDate k \<or> list_ex (date_like U) vals\<rparr>"
proof (induction vals arbitrary: k)
  case Nil
  show ?case by simp
next
  case (Cons v vals)
  show ?case by (cases v) (auto simp: Cons.IH)
qed

lemma InferColumnType_priority:
  "InferColumnType U vals
     = (if list_ex is_float vals then ''NUMERIC''
        else if list_ex is_integer vals \<and> \<not> list_ex (plain_text U) vals then ''INTEGER''
        else if list_ex (date_like U) vals \<and> \<not> list_ex (plain_text U) vals then ''DATE''
        else ''TEXT'')"
  by (simp add: InferColumnType_def note_kinds Let_def)

lemma integers_only:
  "list_all is_integer vals \<Longrightarrow> \<not> list_ex is_float vals \<and> \<not> list_ex (plain_text U) vals"
proof (induction vals)
  case Nil
  show ?case by simp
next
  case (Cons v vals)
  then show ?case by (cases v) simp_all
qed

lemma integers_some: "list_all is_integer vals \<Longrightarrow> vals \<noteq> [] \<Longrightarrow> list_ex is_integer vals"
  by (cases vals) simp_all

text \<open>
  C4, as the code has it. A floating-point value gives \<open>NUMERIC\<close>; else an integer
  and no plain text give \<open>INTEGER\<close>, also when date-like strings are present; else a
  date-like string (its lower-cased form contains \<open>20\<close>, and it has at least 8 bytes)
  and no plain text give \<open>DATE\<close>; else \<open>TEXT\<close>. Plain text is a string that is not
  date-like, or a value of any other kind (a boolean, say). A non-empty sample of
  integers gives \<open>INTEGER\<close>, and \<open>NUMERIC\<close> once a floating-point value is put anywhere
  into it.
\<close>

theorem infer_column_type_priority:
  "InferColumnType U vals
     = (if list_ex is_float vals then ''NUMERIC''
        else if list_ex is_integer vals \<and> \<not> list_ex (plain_text U) vals then ''INTEGER''
        else if list_ex (date_like U) vals \<and> \<not> list_ex (plain_text U) vals then ''DATE''
        else ''TEXT'')
   \<and> (list_all is_integer (xs @ ys) \<and> xs @ ys \<noteq> [] \<longrightarrow>
        InferColumnType U (xs @ ys) = ''INTEGER''
        \<and> InferColumnType U (xs @ VFloat f # ys) = ''NUMERIC'')"
proof (intro conjI impI)
  show "InferColumnType U vals
     = (if list_ex is_float vals then ''NUMERIC''
        else if list_ex is_integer vals \<and> \<not> list_ex (plain_text U) vals then ''INTEGER''
        else if list_ex (date_like U) vals \<and> \<not> list_ex (plain_text U) vals then ''DATE''
        else ''TEXT'')"
    by (rule InferColumnType_priority)
next
  assume a: "list_all is_integer (xs @ ys) \<and> xs @ ys \<noteq> []"
  then show "InferColumnType U (xs @ ys) = ''INTEGER''"
    using integers_only [of "xs @ ys" U] integers_some [of "xs @ ys"]
    by (simp only: InferColumnType_priority) simp
  show "InferColumnType U (xs @ VFloat f # ys) = ''NUMERIC''"
    by (simp add: InferColumnType_priority)
qed

theorem infer_column_type_priority_witness:
  "InferColumnType id [VInt 1, VInt 2, VInt 3] = ''INTEGER''
   \<and> InferColumnType id [VInt 1, VInt 2, VFloat 0x3FF8000000000000, VInt 3] = ''NUMERIC''
   \<and> InferColumnType id [VString ''2024-01-15'', VNil] = ''DATE''
   \<and> InferColumnType id [VString ''2024-01-15'', VString ''n/a''] = ''TEXT''
   \<and> InferColumnType id [VInt 1, VBool True] = ''TEXT''"
proof -
  have d: "date_like id (VString ''2024-01-15'')" "\<not> date_like id (VString ''n/a'')"
    by code_simp+
  show ?thesis
    using infer_column_type_priority [of id "[VString ''2024-01-15'', VNil]"]
      infer_column_type_priority [of id "[VString ''2024-01-15'', VString ''n/a'']"]
      infer_column_type_priority [of id "[VInt 1, VBool True]" "[VInt 1, VInt 2]" "[VInt 3]"
        "0x3FF8000000000000"]
      d
    by simp
qed

text \<open>
  C4, as stated, fails on an integer next to a date-like string: a text value is
  present, so the stated rule passes over \<open>INTEGER\<close> and answers \<open>DATE\<close>; the code answers
  \<open>INTEGER\<close>.
\<close>

theorem infer_integer_with_dates_counterexample:
  "InferColumnType id [VInt 1, VString ''2024-01-15''] = ''INTEGER''
   \<and> InferColumnType_as_specified id [VInt 1, VString ''2024-01-15''] = ''DATE''"
  by code_simp

end
